theory Spec2Isabelle
  imports Main "HOL-Library.AList" "HOL-Library.Monad_Syntax"
begin

section \<open>Terms\<close>

text \<open>
  A \<^verbatim>\<open>Symbol\<close> is a number used as an index into the registry arrays; handles are
  produced from array lengths only, so they are modelled as natural numbers.
  \<^verbatim>\<open>Expression\<close> is the tagged union of \<^verbatim>\<open>expression.ts\<close>; the field order of each
  constructor is given beside it. The value of a \<^verbatim>\<open>LEVEL\<close> is a JavaScript number,
  modelled as an integer.
\<close>

type_synonym symbol = nat

datatype expr =
    SYMBOL symbol
  | LAMBDA symbol expr                  \<comment> \<open>arg, body\<close>
  | CALL expr "expr list"               \<comment> \<open>fn, args\<close>
  | FN_TYPE expr expr "symbol option"   \<comment> \<open>inputType, outputType, arg?\<close>
  | PATTERN "symbol option"             \<comment> \<open>variable?\<close>
  | PLACEHOLDER
  | UNIVERSE expr                       \<comment> \<open>subscript\<close>
  | LEVEL_TYPE
  | LEVEL int                           \<comment> \<open>value\<close>
  | LEVEL_SUCC expr
  | LEVEL_MAX expr expr                 \<comment> \<open>lhs, rhs\<close>

text \<open>
  A JavaScript \<^verbatim>\<open>Map\<close> keeps its keys in insertion order: \<^verbatim>\<open>set\<close> on a present key
  overwrites in place, on an absent key appends, \<^verbatim>\<open>delete\<close> removes. An association
  list with \<^const>\<open>AList.update\<close> and \<^const>\<open>AList.delete\<close> behaves the same way.
  A JavaScript \<^verbatim>\<open>Set\<close> is a list without duplicates, in insertion order.
\<close>

type_synonym ('k, 'v) jsmap = "('k \<times> 'v) list"

definition set_add :: "'a \<Rightarrow> 'a list \<Rightarrow> 'a list" where
  "set_add x xs = (if x \<in> set xs then xs else xs @ [x])"

section \<open>Substitution: the class Replacer\<close>

text \<open>
  \<^verbatim>\<open>Replacer\<close> walks the term with a work stack and one mutable map \<^verbatim>\<open>maps\<close>. The
  actions pushed for a node run in order, each sub-walk leaving its result on the value
  stack, so the walk is the recursion below with the map passed through. The cases:
  \<^item> \<^verbatim>\<open>SYMBOL\<close>: the mapped value if there is one, else the node.
  \<^item> \<^verbatim>\<open>FN_TYPE\<close> whose \<^verbatim>\<open>arg\<close> is a key of \<^verbatim>\<open>maps\<close>: the input type is replaced, then
    \<^verbatim>\<open>maps.delete(arg)\<close>, then the output type is replaced, then \<^verbatim>\<open>maps.set(arg, old)\<close>.
  \<^item> \<^verbatim>\<open>LAMBDA\<close> whose \<^verbatim>\<open>arg\<close> is a key of \<^verbatim>\<open>maps\<close>: the body is replaced (the source has
    no \<^verbatim>\<open>delete\<close> here), then \<^verbatim>\<open>maps.set(arg, old)\<close>.
  \<^item> \<^verbatim>\<open>CALL\<close>, \<^verbatim>\<open>UNIVERSE\<close>: the children are replaced.
  \<^item> every other tag (\<^verbatim>\<open>default\<close>): the node itself is pushed, its children are not visited.
\<close>

fun replace :: "expr \<Rightarrow> (symbol, expr) jsmap \<Rightarrow> expr \<times> (symbol, expr) jsmap"
and replace_args :: "expr list \<Rightarrow> (symbol, expr) jsmap \<Rightarrow> expr list \<times> (symbol, expr) jsmap"
where
  "replace (SYMBOL s) maps =
     (case map_of maps s of Some v \<Rightarrow> (v, maps) | None \<Rightarrow> (SYMBOL s, maps))"
| "replace (FN_TYPE inputType outputType arg) maps =
     (case (case arg of None \<Rightarrow> None | Some a \<Rightarrow> map_option (Pair a) (map_of maps a)) of
        None \<Rightarrow>
          (let (i', m1) = replace inputType maps;
               (o', m2) = replace outputType m1
           in (FN_TYPE i' o' arg, m2))
      | Some (a, old) \<Rightarrow>
          (let (i', m1) = replace inputType maps;
               m2 = AList.delete a m1;
               (o', m3) = replace outputType m2;
               m4 = AList.update a old m3
           in (FN_TYPE i' o' arg, m4)))"
| "replace (LAMBDA arg body) maps =
     (case map_of maps arg of
        None \<Rightarrow> (let (b', m1) = replace body maps in (LAMBDA arg b', m1))
      | Some old \<Rightarrow>
          (let (b', m1) = replace body maps;
               m2 = AList.update arg old m1
           in (LAMBDA arg b', m2)))"
| "replace (CALL fn args) maps =
     (let (fn', m1) = replace fn maps;
          (args', m2) = replace_args args m1
      in (CALL fn' args', m2))"
| "replace (UNIVERSE subscript) maps =
     (let (s', m1) = replace subscript maps in (UNIVERSE s', m1))"
| "replace (PATTERN v) maps = (PATTERN v, maps)"
| "replace PLACEHOLDER maps = (PLACEHOLDER, maps)"
| "replace LEVEL_TYPE maps = (LEVEL_TYPE, maps)"
| "replace (LEVEL n) maps = (LEVEL n, maps)"
| "replace (LEVEL_SUCC e) maps = (LEVEL_SUCC e, maps)"
| "replace (LEVEL_MAX a b) maps = (LEVEL_MAX a b, maps)"
| "replace_args [] maps = ([], maps)"
| "replace_args (a # as) maps =
     (let (a', m1) = replace a maps;
          (as', m2) = replace_args as m1
      in (a' # as', m2))"

text \<open>\<^verbatim>\<open>replaceOne\<close> clears the map and sets the one pair; \<^verbatim>\<open>replaceMany\<close> clears it and
  copies the given map in its iteration order.\<close>

definition replaceOneSymbol :: "expr \<Rightarrow> symbol \<Rightarrow> expr \<Rightarrow> expr" where
  "replaceOneSymbol e source replacement = fst (replace e [(source, replacement)])"

definition replaceSymbols :: "expr \<Rightarrow> (symbol, expr) jsmap \<Rightarrow> expr" where
  "replaceSymbols e m = fst (replace e (fold (\<lambda>(k, v). AList.update k v) m []))"

section \<open>The symbol registry\<close>

text \<open>
  A rewrite rule as the elaborator stores it (\<^verbatim>\<open>{lhs, rhs, patterns}\<close>), one entry of the
  registry (\<^verbatim>\<open>SymbolEntry\<close>) and the class \<^verbatim>\<open>SymbolRegistry\<close> with its three private
  fields. A result of type \<open>'a option\<close> is \<open>None\<close> where the source throws (a failed
  \<^verbatim>\<open>panic()\<close> or a property read on \<^verbatim>\<open>undefined\<close>).
\<close>

record rule =
  lhs :: expr
  rhs :: expr
  patterns :: "symbol list"

record SymbolEntry =
  name :: string
  parent :: "symbol option"
  isLocal :: bool
  subSymbols :: "(string, symbol) jsmap option"
  type :: "expr option"
  ownValue :: "expr option"
  downValue :: "rule list option"

record SymbolRegistry =
  entriesById :: "SymbolEntry list"
  entriesByName :: "(string, symbol) jsmap"
  removedSymbols :: "symbol list"

definition newRegistry :: SymbolRegistry where
  "newRegistry = \<lparr>entriesById = [], entriesByName = [], removedSymbols = []\<rparr>"

definition newEntry :: "symbol option \<Rightarrow> string \<Rightarrow> bool \<Rightarrow> SymbolEntry" where
  "newEntry p n l = \<lparr>name = n, parent = p, isLocal = l, subSymbols = None,
     type = None, ownValue = None, downValue = None\<rparr>"

definition getSymbolCount :: "SymbolRegistry \<Rightarrow> nat" where
  "getSymbolCount reg = length (entriesById reg)"

text \<open>\<^verbatim>\<open>tryGetSymbolEntry\<close> returns \<^verbatim>\<open>null\<close> (here \<open>None\<close>) outside the array; the test
  \<^verbatim>\<open>s >= 0\<close> holds of every natural number.\<close>

definition tryGetSymbolEntry :: "SymbolRegistry \<Rightarrow> symbol \<Rightarrow> SymbolEntry option" where
  "tryGetSymbolEntry reg s =
     (if s < length (entriesById reg) then Some (entriesById reg ! s) else None)"

text \<open>\<^verbatim>\<open>getSymbolEntry\<close> is \<^verbatim>\<open>tryGetSymbolEntry(s) ?? panic()\<close>: \<open>None\<close> is the panic.\<close>

definition getSymbolEntry :: "SymbolRegistry \<Rightarrow> symbol \<Rightarrow> SymbolEntry option" where
  "getSymbolEntry reg s = tryGetSymbolEntry reg s"







subsection \<open>The scratch registry\<close>

text \<open>
  \<^verbatim>\<open>TempSymbolRegistry\<close> holds a reference to the permanent registry and its own array of
  temp entries. Its \<^verbatim>\<open>getSymbolEntry\<close> reads the permanent registry below the permanent
  count and \<^verbatim>\<open>tempSymbols[s - count]\<close> from there on, which is \<^verbatim>\<open>undefined\<close> (here \<open>None\<close>)
  past the end of the array. Entries are objects that the solver mutates in place;
  \<open>setSymbolEntryT\<close> writes an entry back where \<open>getSymbolEntryT\<close> read it.
\<close>

record TempSymbolRegistry =
  parentRegistry :: SymbolRegistry
  tempSymbols :: "SymbolEntry list"

definition newTempRegistry :: "SymbolRegistry \<Rightarrow> TempSymbolRegistry" where
  "newTempRegistry reg = \<lparr>parentRegistry = reg, tempSymbols = []\<rparr>"

definition getSymbolEntryT :: "TempSymbolRegistry \<Rightarrow> symbol \<Rightarrow> SymbolEntry option" where
  "getSymbolEntryT t s =
     (let count = getSymbolCount (parentRegistry t)
      in if s < count then getSymbolEntry (parentRegistry t) s
         else if s - count < length (tempSymbols t) then Some (tempSymbols t ! (s - count))
         else None)"

definition setSymbolEntryT :: "TempSymbolRegistry \<Rightarrow> symbol \<Rightarrow> SymbolEntry \<Rightarrow> TempSymbolRegistry" where
  "setSymbolEntryT t s e =
     (let count = getSymbolCount (parentRegistry t)
      in if s < count
         then t\<lparr>parentRegistry := (parentRegistry t)
                  \<lparr>entriesById := (entriesById (parentRegistry t))[s := e]\<rparr>\<rparr>
         else t\<lparr>tempSymbols := (tempSymbols t)[s - count := e]\<rparr>)"

definition isTempSymbol :: "TempSymbolRegistry \<Rightarrow> symbol \<Rightarrow> bool" where
  "isTempSymbol t s = (s \<ge> getSymbolCount (parentRegistry t))"

definition createTempSymbol ::
  "TempSymbolRegistry \<Rightarrow> bool \<Rightarrow> expr option \<Rightarrow> symbol \<times> TempSymbolRegistry" where
  "createTempSymbol t l ty =
     (length (tempSymbols t) + getSymbolCount (parentRegistry t),
      t\<lparr>tempSymbols := tempSymbols t @ [(newEntry None [] l)\<lparr>type := ty\<rparr>]\<rparr>)"

text \<open>The pairs \<^verbatim>\<open>(s, entry)\<close> that \<^verbatim>\<open>forEachTempSymbol\<close> hands to its callback, in order.\<close>

definition tempSymbolList :: "TempSymbolRegistry \<Rightarrow> (symbol \<times> SymbolEntry) list" where
  "tempSymbolList t =
     map (\<lambda>i. (i + getSymbolCount (parentRegistry t), tempSymbols t ! i)) [0 ..< length (tempSymbols t)]"

section \<open>The pattern matcher\<close>

text \<open>
  \<^verbatim>\<open>matchPattern(expr, pattern)\<close> runs a loop over a stack \<^verbatim>\<open>todo\<close> of pairs (pattern,
  subject) and fills the map \<^verbatim>\<open>substitues\<close>. One turn of the loop pops a pair and either
  returns \<^verbatim>\<open>null\<close>, or panics (the \<^verbatim>\<open>default\<close> branch), or goes on with a new map and
  stack. The head of the list is the top of the stack.
\<close>

datatype match_step =
    MatchNull
  | MatchPanic
  | MatchNext "(symbol, expr) jsmap" "(expr \<times> expr) list"

fun matchOne :: "expr \<Rightarrow> expr \<Rightarrow> (symbol, expr) jsmap \<Rightarrow> (expr \<times> expr) list \<Rightarrow> match_step" where
  "matchOne (SYMBOL p) e sub todo =
     (case e of
        SYMBOL s \<Rightarrow> if p \<noteq> s then MatchNull else MatchNext sub todo
      | _ \<Rightarrow> MatchNull)"
| "matchOne (PATTERN v) e sub todo =
     (case v of
        None \<Rightarrow> MatchNext sub todo
      | Some x \<Rightarrow>
          (case map_of sub x of
             Some old \<Rightarrow> MatchNext sub ((old, e) # todo)
           | None \<Rightarrow> MatchNext (AList.update x e sub) todo))"
| "matchOne (CALL pfn pargs) e sub todo =
     (case e of
        CALL efn eargs \<Rightarrow>
          if length eargs \<noteq> length pargs then MatchNull
          else MatchNext sub ((pfn, efn) # zip pargs eargs @ todo)
      | _ \<Rightarrow> MatchNull)"
| "matchOne (LAMBDA parg pbody) e sub todo =
     (case e of
        LAMBDA earg ebody \<Rightarrow>
          MatchNext sub
            ((pbody, if earg \<noteq> parg then replaceOneSymbol ebody earg (SYMBOL parg) else ebody)
             # todo)
      | _ \<Rightarrow> MatchNull)"
| "matchOne (FN_TYPE pin pout parg) e sub todo =
     (case e of
        FN_TYPE ein eout earg \<Rightarrow>
          MatchNext sub
            ((pin, ein)
             # (pout,
                case (parg, earg) of
                  (Some pa, Some ea) \<Rightarrow>
                    if pa \<noteq> ea then replaceOneSymbol eout ea (FN_TYPE pin pout parg) else eout
                | _ \<Rightarrow> eout)
             # todo)
      | _ \<Rightarrow> MatchNull)"
| "matchOne (UNIVERSE psub) e sub todo =
     (case e of
        UNIVERSE esub \<Rightarrow> MatchNext sub ((psub, esub) # todo)
      | _ \<Rightarrow> MatchNull)"
| "matchOne LEVEL_TYPE e sub todo =
     (case e of LEVEL_TYPE \<Rightarrow> MatchNext sub todo | _ \<Rightarrow> MatchNull)"
| "matchOne (LEVEL_SUCC pe) e sub todo =
     (case e of
        LEVEL_SUCC ee \<Rightarrow> MatchNext sub ((pe, ee) # todo)
      | LEVEL n \<Rightarrow> if n > 0 then MatchNext sub ((pe, LEVEL (n - 1)) # todo) else MatchNull
      | _ \<Rightarrow> MatchNext sub todo)"
| "matchOne PLACEHOLDER e sub todo = MatchPanic"
| "matchOne (LEVEL n) e sub todo = MatchPanic"
| "matchOne (LEVEL_MAX a b) e sub todo = MatchPanic"

text \<open>
  The loop need not end (a subject bound to a pattern variable is matched as a pattern
  again), so it runs on fuel. The result is \<open>None\<close> when the call does not return (a
  panic, or the fuel is used up), \<open>Some None\<close> for \<^verbatim>\<open>null\<close> and \<open>Some (Some m)\<close> for
  the map \<open>m\<close>.
\<close>

fun matchLoop ::
  "nat \<Rightarrow> (symbol, expr) jsmap \<Rightarrow> (expr \<times> expr) list \<Rightarrow> (symbol, expr) jsmap option option" where
  "matchLoop n sub [] = Some (Some sub)"
| "matchLoop 0 sub (t # todo) = None"
| "matchLoop (Suc n) sub ((p, e) # todo) =
     (case matchOne p e sub todo of
        MatchNull \<Rightarrow> Some None
      | MatchPanic \<Rightarrow> None
      | MatchNext sub' todo' \<Rightarrow> matchLoop n sub' todo')"

definition matchPattern :: "nat \<Rightarrow> expr \<Rightarrow> expr \<Rightarrow> (symbol, expr) jsmap option option" where
  "matchPattern fuel e pattern = matchLoop fuel [] [(pattern, e)]"

section \<open>The normaliser: the class Expander\<close>

text \<open>
  The expander keeps a stack \<^verbatim>\<open>todo\<close> of closures, a stack of results and the flag
  \<^verbatim>\<open>changed\<close>. Each closure of the source is one constructor of \<open>action\<close>:
  \<^item> \<open>A_expand e\<close> is \<^verbatim>\<open>_expand(e)\<close> and \<open>A_expandCall fn args\<close> is \<^verbatim>\<open>_expandCall(fn, args)\<close>;
  \<^item> \<open>A_lambda e arg\<close>, \<open>A_fnType arg\<close>, \<open>A_universe\<close>, \<open>A_levelSucc\<close>, \<open>A_levelMax\<close> are
    the closures that rebuild a node once its children are on the result stack;
  \<^item> \<open>A_call\<close> is the closure of \<^verbatim>\<open>_expandCall\<close> that combines the expanded function and
    argument;
  \<^item> \<open>A_rest\<close> is the second closure of the branch for more than one argument: it pops
    the result stack and builds an action that it does not schedule.
  \<^verbatim>\<open>doActions(a1, ..., an)\<close> pushes the actions so that \<open>a1\<close> runs first. The head of each
  list is the top of the stack.
\<close>

datatype action =
    A_expand expr
  | A_expandCall expr "expr list"
  | A_lambda expr symbol
  | A_fnType "symbol option"
  | A_universe
  | A_levelSucc
  | A_levelMax
  | A_call
  | A_rest

record expander =
  todo :: "action list"
  stack :: "expr list"
  changed :: bool

text \<open>The rewrite rules of the head symbol are tried in order; the first whose left side
  matches gives the right side with the match substituted. \<open>None\<close>: the matcher did not
  return; \<open>Some None\<close>: no rule matched.\<close>

fun firstMatch :: "nat \<Rightarrow> expr \<Rightarrow> rule list \<Rightarrow> expr option option" where
  "firstMatch fuel e [] = Some None"
| "firstMatch fuel e (r # rs) =
     (case matchPattern fuel e (lhs r) of
        None \<Rightarrow> None
      | Some None \<Rightarrow> firstMatch fuel e rs
      | Some (Some m) \<Rightarrow> Some (Some (replaceSymbols (rhs r) m)))"

definition push :: "expr \<Rightarrow> expander \<Rightarrow> expander option" where
  "push e x = Some (x\<lparr>stack := e # stack x\<rparr>)"

definition doActions :: "action list \<Rightarrow> expander \<Rightarrow> expander option" where
  "doActions acts x = Some (x\<lparr>todo := acts @ todo x\<rparr>)"

text \<open>One action, run on the expander from which it has been popped. \<open>None\<close> where the
  source throws: a read of \<^verbatim>\<open>.kind\<close> or \<^verbatim>\<open>.ownValue\<close> on \<^verbatim>\<open>undefined\<close>, or a matcher that
  does not return.\<close>

fun runAction :: "nat \<Rightarrow> TempSymbolRegistry \<Rightarrow> action \<Rightarrow> expander \<Rightarrow> expander option" where
  "runAction fuel reg (A_expand e) x =
     (case e of
        SYMBOL s \<Rightarrow>
          (case getSymbolEntryT reg s of
             None \<Rightarrow> None
           | Some entry \<Rightarrow>
               (case ownValue entry of
                  Some v \<Rightarrow> doActions [A_expand v] x
                | None \<Rightarrow> push e x))
      | CALL fn args \<Rightarrow> doActions [A_expandCall fn args] x
      | LAMBDA arg body \<Rightarrow> doActions [A_expand body, A_lambda e arg] x
      | FN_TYPE inputType outputType arg \<Rightarrow>
          doActions [A_expand inputType, A_expand outputType, A_fnType arg] x
      | UNIVERSE subscript \<Rightarrow> doActions [A_expand subscript, A_universe] x
      | LEVEL_SUCC e1 \<Rightarrow> doActions [A_expand e1, A_levelSucc] x
      | LEVEL_MAX l r \<Rightarrow> doActions [A_expand l, A_expand r, A_levelMax] x
      | _ \<Rightarrow> push e x)"
| "runAction fuel reg (A_lambda e arg) x =
     (if changed x then
        (case stack x of
           body # rest \<Rightarrow> Some (x\<lparr>stack := LAMBDA arg body # rest\<rparr>)
         | [] \<Rightarrow> None)
      else push e x)"
| "runAction fuel reg (A_fnType arg) x =
     (case stack x of
        outputType # inputType # rest \<Rightarrow> Some (x\<lparr>stack := FN_TYPE inputType outputType arg # rest\<rparr>)
      | _ \<Rightarrow> None)"
| "runAction fuel reg A_universe x =
     (case stack x of
        subscript # rest \<Rightarrow> Some (x\<lparr>stack := UNIVERSE subscript # rest\<rparr>)
      | [] \<Rightarrow> None)"
| "runAction fuel reg A_levelSucc x =
     (case stack x of
        LEVEL n # rest \<Rightarrow> Some (x\<lparr>changed := True, stack := LEVEL (n + 1) # rest\<rparr>)
      | e # rest \<Rightarrow> Some (x\<lparr>stack := LEVEL_SUCC e # rest\<rparr>)
      | [] \<Rightarrow> None)"
| "runAction fuel reg A_levelMax x =
     (case stack x of
        LEVEL b # LEVEL a # rest \<Rightarrow> Some (x\<lparr>changed := True, stack := LEVEL (max a b) # rest\<rparr>)
      | r # l # rest \<Rightarrow> Some (x\<lparr>stack := LEVEL_MAX l r # rest\<rparr>)
      | _ \<Rightarrow> None)"
| "runAction fuel reg (A_expandCall fn args) x =
     (case args of
        [a] \<Rightarrow> doActions [A_expand fn, A_expand a, A_call] x
      | _ \<Rightarrow> doActions [A_expandCall fn (if args = [] then [] else [last args]), A_rest] x)"
| "runAction fuel reg A_rest x = Some (x\<lparr>stack := tl (stack x)\<rparr>)"
| "runAction fuel reg A_call x =
     (case stack x of
        arg # fn # rest \<Rightarrow>
          (let (result, x1) =
                 (case fn of
                    LAMBDA a b \<Rightarrow> (replaceOneSymbol fn a arg, x\<lparr>changed := True, stack := rest\<rparr>)
                  | CALL f as \<Rightarrow> (CALL f (as @ [arg]), x\<lparr>stack := rest\<rparr>)
                  | _ \<Rightarrow> (CALL fn [arg], x\<lparr>stack := rest\<rparr>))
           in case result of
                CALL (SYMBOL s) as \<Rightarrow>
                  (case getSymbolEntryT reg s of
                     None \<Rightarrow> None
                   | Some entry \<Rightarrow>
                       (case downValue entry of
                          None \<Rightarrow> push result x1
                        | Some rules \<Rightarrow>
                            (case firstMatch fuel result rules of
                               None \<Rightarrow> None
                             | Some None \<Rightarrow> push result x1
                             | Some (Some r) \<Rightarrow> doActions [A_expand r] (x1\<lparr>changed := True\<rparr>))))
              | _ \<Rightarrow> push result x1)
      | _ \<Rightarrow> None)"

text \<open>The loop of \<^verbatim>\<open>expand\<close>, on fuel: when \<^verbatim>\<open>todo\<close> is empty, the assertion that exactly
  one result is on the stack, and the pair of that result and the flag.\<close>

fun expandLoop :: "nat \<Rightarrow> TempSymbolRegistry \<Rightarrow> expander \<Rightarrow> (expr \<times> bool) option" where
  "expandLoop 0 reg x = None"
| "expandLoop (Suc n) reg x =
     (case todo x of
        [] \<Rightarrow> (case stack x of [e] \<Rightarrow> Some (e, changed x) | _ \<Rightarrow> None)
      | a # rest \<Rightarrow>
          (case runAction n reg a (x\<lparr>todo := rest\<rparr>) of
             None \<Rightarrow> None
           | Some x' \<Rightarrow> expandLoop n reg x'))"

definition expand :: "nat \<Rightarrow> TempSymbolRegistry \<Rightarrow> expr \<Rightarrow> (expr \<times> bool) option" where
  "expand fuel reg e = expandLoop fuel reg \<lparr>todo = [A_expand e], stack = [], changed = False\<rparr>"

section \<open>The constraint solver\<close>

datatype Constraint =
    CTYPE expr expr                     \<comment> \<open>kind TYPE: expr, type\<close>
  | CFN expr "expr list" expr           \<comment> \<open>kind FN: expr, args, outputType\<close>
  | CEQUAL expr expr                    \<comment> \<open>kind EQUAL: expr1, expr2\<close>
  | CFN_TYPE_EQUAL expr "expr list" expr  \<comment> \<open>kind FN_TYPE_EQUAL: fnType, args, outputType\<close>

datatype Diagnostic =
    UNTYPED_EXPRESSION expr
  | UNEQUAL expr expr
  | UNMET_SUBSCRIPT_CONSTRAINT int int
  | UNRESOLVED_CONSTRAINT Constraint
  | UNINFERED_VAR "symbol list"
  | FN_TYPE_EXPECTED expr

text \<open>
  The fields of \<^verbatim>\<open>ConstraintSolver\<close>. The field \<^verbatim>\<open>context\<close> is the very object that
  \<^verbatim>\<open>registry.parent\<close> refers to, so it is read as \<open>parentRegistry (registry st)\<close>.
\<close>

record solver =
  registry :: TempSymbolRegistry
  diagnostics :: "Diagnostic list"
  constraints :: "Constraint list"
  unlockedSymbols :: "symbol list"
  affectedSymbols :: "symbol list"

definition newSolver :: "SymbolRegistry \<Rightarrow> solver" where
  "newSolver reg = \<lparr>registry = newTempRegistry reg, diagnostics = [], constraints = [],
     unlockedSymbols = [], affectedSymbols = []\<rparr>"

text \<open>
  Two functions that the solver imports are not in the sources at hand:
  \<^verbatim>\<open>checkOwnValueCycle\<close> (from \<^verbatim>\<open>expression.ts\<close>) and \<^verbatim>\<open>complement\<close> (from \<^verbatim>\<open>util.ts\<close>). The
  solver is therefore defined for any pair of them. The cycle check may look at the
  registry; it answers \<open>True\<close> when the assignment is allowed.
\<close>

record helpers =
  checkOwnValueCycle :: "TempSymbolRegistry \<Rightarrow> symbol \<Rightarrow> expr \<Rightarrow> bool"
  complement :: "(symbol, expr) jsmap \<Rightarrow> symbol list \<Rightarrow> (symbol, expr) jsmap"

definition addTypeConstraint :: "expr \<Rightarrow> expr \<Rightarrow> solver \<Rightarrow> solver" where
  "addTypeConstraint e t st = st\<lparr>constraints := constraints st @ [CTYPE e t]\<rparr>"

definition addEqualConstraint :: "expr \<Rightarrow> expr \<Rightarrow> solver \<Rightarrow> solver" where
  "addEqualConstraint a b st = st\<lparr>constraints := constraints st @ [CEQUAL a b]\<rparr>"

definition addFnTypeConstraint :: "expr \<Rightarrow> expr list \<Rightarrow> expr \<Rightarrow> solver \<Rightarrow> solver" where
  "addFnTypeConstraint e as t st = st\<lparr>constraints := constraints st @ [CFN e as t]\<rparr>"

definition addFnTypeEqualConstraint :: "expr \<Rightarrow> expr list \<Rightarrow> expr \<Rightarrow> solver \<Rightarrow> solver" where
  "addFnTypeEqualConstraint f as t st = st\<lparr>constraints := constraints st @ [CFN_TYPE_EQUAL f as t]\<rparr>"

definition pushDiagnostic :: "Diagnostic \<Rightarrow> solver \<Rightarrow> solver" where
  "pushDiagnostic d st = st\<lparr>diagnostics := diagnostics st @ [d]\<rparr>"

definition unlockSymbol :: "symbol \<Rightarrow> solver \<Rightarrow> solver" where
  "unlockSymbol s st = st\<lparr>unlockedSymbols := set_add s (unlockedSymbols st)\<rparr>"

text \<open>\<^verbatim>\<open>registry.createTempSymbol\<close> on the solver's registry.\<close>

definition tempSymbol :: "bool \<Rightarrow> expr option \<Rightarrow> solver \<Rightarrow> symbol \<times> solver" where
  "tempSymbol l ty st =
     (let (s, r) = createTempSymbol (registry st) l ty in (s, st\<lparr>registry := r\<rparr>))"

definition addTypeTypeConstraint :: "expr \<Rightarrow> solver \<Rightarrow> solver" where
  "addTypeTypeConstraint ty st =
     (let (sub, st1) = tempSymbol False (Some LEVEL_TYPE) st
      in addTypeConstraint ty (UNIVERSE (SYMBOL sub)) st1)"


text \<open>
  \<^verbatim>\<open>trySetOwnValue\<close>: three guards in the order of the source (an own-value is present;
  the symbol is not a temp symbol; the cycle check fails, which also records
  \<^verbatim>\<open>UNEQUAL\<close>), then the assignment, the constraint \<open>value : type\<close> when the entry has a
  type, and the addition to \<^verbatim>\<open>affectedSymbols\<close> for a symbol that is not temp.
\<close>

definition trySetOwnValue :: "helpers \<Rightarrow> symbol \<Rightarrow> expr \<Rightarrow> solver \<Rightarrow> (bool \<times> solver) option" where
  "trySetOwnValue h s v st =
     (case getSymbolEntryT (registry st) s of
        None \<Rightarrow> None
      | Some entry \<Rightarrow>
          if ownValue entry \<noteq> None then Some (False, st)
          else if \<not> isTempSymbol (registry st) s then Some (False, st)
          else if \<not> checkOwnValueCycle h (registry st) s v
            then Some (False, pushDiagnostic (UNEQUAL (SYMBOL s) v) st)
          else
            (let st1 = st\<lparr>registry := setSymbolEntryT (registry st) s (entry\<lparr>ownValue := Some v\<rparr>)\<rparr>;
                 st2 = (case type entry of Some t \<Rightarrow> addTypeConstraint v t st1 | None \<Rightarrow> st1);
                 st3 = (if \<not> isTempSymbol (registry st2) s
                        then st2\<lparr>affectedSymbols := set_add s (affectedSymbols st2)\<rparr> else st2)
             in Some (True, st3)))"

datatype ExpressionKind =
    K_SYMBOL | K_LAMBDA | K_CALL | K_FN_TYPE | K_PATTERN | K_PLACEHOLDER
  | K_UNIVERSE | K_LEVEL_TYPE | K_LEVEL | K_LEVEL_SUCC | K_LEVEL_MAX

fun kind :: "expr \<Rightarrow> ExpressionKind" where
  "kind (SYMBOL s) = K_SYMBOL"
| "kind (LAMBDA a b) = K_LAMBDA"
| "kind (CALL f as) = K_CALL"
| "kind (FN_TYPE i ou a) = K_FN_TYPE"
| "kind (PATTERN v) = K_PATTERN"
| "kind PLACEHOLDER = K_PLACEHOLDER"
| "kind (UNIVERSE s) = K_UNIVERSE"
| "kind LEVEL_TYPE = K_LEVEL_TYPE"
| "kind (LEVEL n) = K_LEVEL"
| "kind (LEVEL_SUCC e) = K_LEVEL_SUCC"
| "kind (LEVEL_MAX a b) = K_LEVEL_MAX"

text \<open>
  \<^verbatim>\<open>matchLevelSucc\<close>. The opening swap of the source assigns \<^verbatim>\<open>expr2 = expr1\<close> and then
  \<^verbatim>\<open>expr1 = tmp\<close> with \<^verbatim>\<open>tmp = expr1\<close>: afterwards both variables hold the old \<^verbatim>\<open>expr1\<close>.
\<close>

definition matchLevelSucc :: "expr \<Rightarrow> expr \<Rightarrow> solver \<Rightarrow> bool \<times> solver" where
  "matchLevelSucc expr1 expr2 st =
     (let e2 = (if kind expr2 = K_LEVEL_SUCC \<and> kind expr1 \<noteq> K_LEVEL_SUCC then expr1 else expr2)
      in case expr1 of
           LEVEL_SUCC x \<Rightarrow>
             (case e2 of
                LEVEL_SUCC y \<Rightarrow> (True, addEqualConstraint x y st)
              | LEVEL n \<Rightarrow>
                  (True, if n > 0 then addEqualConstraint x (LEVEL (n - 1)) st
                         else pushDiagnostic (UNEQUAL expr1 e2) st)
              | _ \<Rightarrow> (False, st))
         | _ \<Rightarrow> (False, st))"

text \<open>The two swaps that orient an equation: a symbol goes to the left, and of two
  symbols a temp one goes to the left.\<close>

definition orient :: "TempSymbolRegistry \<Rightarrow> expr \<Rightarrow> expr \<Rightarrow> expr \<times> expr" where
  "orient r a b =
     (let (a1, b1) = (if kind a \<noteq> K_SYMBOL \<and> kind b = K_SYMBOL then (b, a) else (a, b))
      in case (a1, b1) of
           (SYMBOL s1, SYMBOL s2) \<Rightarrow>
             if \<not> isTempSymbol r s1 \<and> isTempSymbol r s2 then (b1, a1) else (a1, b1)
         | _ \<Rightarrow> (a1, b1))"

text \<open>The end of \<^verbatim>\<open>evaluateEqualConstraint\<close>, from the call of \<^verbatim>\<open>matchLevelSucc\<close> on:
  the decomposition of two calls under \<^verbatim>\<open>previouslyNoChange\<close>, and the re-posting or
  re-queueing. \<open>con\<close> is the constraint as it was queued, \<open>ch\<close> is
  \<^verbatim>\<open>changed1 || changed2\<close>.\<close>

definition equalFallback ::
  "Constraint \<Rightarrow> bool \<Rightarrow> bool \<Rightarrow> expr \<Rightarrow> expr \<Rightarrow> solver \<Rightarrow> (bool \<times> solver) option" where
  "equalFallback con previouslyNoChange ch expr1 expr2 st =
     (case matchLevelSucc expr1 expr2 st of
        (True, st1) \<Rightarrow> Some (True, st1)
      | (False, st1) \<Rightarrow>
          (case (previouslyNoChange, expr1, expr2) of
             (True, CALL f1 as1, CALL f2 as2) \<Rightarrow>
               if length as1 \<noteq> length as2
               then Some (False, pushDiagnostic (UNEQUAL expr1 expr2) st1)
               else Some (True,
                      fold (\<lambda>(a, b). addEqualConstraint a b) (zip as1 as2)
                        (addEqualConstraint f1 f2 st1))
           | _ \<Rightarrow>
               if ch then Some (ch, addEqualConstraint expr1 expr2 st1)
               else Some (ch, st1\<lparr>constraints := constraints st1 @ [con]\<rparr>)))"

text \<open>The part of \<^verbatim>\<open>evaluateEqualConstraint\<close> after the symbol case, from the
  \<^verbatim>\<open>LAMBDA\<close> test to the end.\<close>

definition equalStructural ::
  "Constraint \<Rightarrow> bool \<Rightarrow> bool \<Rightarrow> expr \<Rightarrow> expr \<Rightarrow> solver \<Rightarrow> (bool \<times> solver) option" where
  "equalStructural con previouslyNoChange ch expr1 expr2 st =
     (case (expr1, expr2) of
        (LAMBDA a1 b1, LAMBDA a2 b2) \<Rightarrow>
          (let (arg1, st1) = tempSymbol True None st;
               (arg2, st2) = tempSymbol True None st1
           in Some (True, addEqualConstraint
                 (replaceOneSymbol b1 a1 (SYMBOL arg1))
                 (replaceOneSymbol b2 a2 (SYMBOL arg2)) st2))
      | (FN_TYPE i1 o1 a1, FN_TYPE i2 o2 a2) \<Rightarrow>
          (let st1 = addEqualConstraint i1 i2 st;
               (output1, st2) =
                 (case a1 of
                    None \<Rightarrow> (o1, st1)
                  | Some x \<Rightarrow> (let (arg, s') = tempSymbol True (Some i1) st1
                               in (replaceOneSymbol o1 x (SYMBOL arg), s')));
               (output2, st3) =
                 (case a2 of
                    None \<Rightarrow> (o2, st2)
                  | Some x \<Rightarrow> (let (arg, s') = tempSymbol True (Some i2) st2
                               in (replaceOneSymbol o2 x (SYMBOL arg), s')))
           in Some (True, addEqualConstraint output1 output2 st3))
      | (UNIVERSE s1, UNIVERSE s2) \<Rightarrow> Some (True, addEqualConstraint s1 s2 st)
      | (LEVEL_TYPE, LEVEL_TYPE) \<Rightarrow> Some (True, st)
      | (LEVEL n1, LEVEL n2) \<Rightarrow>
          Some (True, if n1 \<noteq> n2 then pushDiagnostic (UNEQUAL expr1 expr2) st else st)
      | _ \<Rightarrow> equalFallback con previouslyNoChange ch expr1 expr2 st)"

definition evaluateEqualConstraint ::
  "nat \<Rightarrow> helpers \<Rightarrow> expr \<Rightarrow> expr \<Rightarrow> bool \<Rightarrow> solver \<Rightarrow> (bool \<times> solver) option" where
  "evaluateEqualConstraint fuel h c1 c2 previouslyNoChange st =
     do {
       (x1, changed1) \<leftarrow> expand fuel (registry st) c1;
       (x2, changed2) \<leftarrow> expand fuel (registry st) c2;
       let (expr1, expr2) = orient (registry st) x1 x2;
       let rest = equalStructural (CEQUAL c1 c2) previouslyNoChange (changed1 \<or> changed2) expr1 expr2;
       (case expr1 of
          SYMBOL s1 \<Rightarrow>
            if expr2 = SYMBOL s1 then Some (True, st)
            else do {
              (ok, st1) \<leftarrow> trySetOwnValue h s1 expr2 st;
              if ok then Some (True, st1) else rest st1
            }
        | _ \<Rightarrow> rest st)
     }"

text \<open>\<^verbatim>\<open>makeInferedFnType\<close> walks the arguments from the last to the first; for each it
  creates a level symbol and an input-type symbol, asks for \<open>arg : inputType\<close> and wraps
  the result in a non-dependent function type.\<close>

definition makeInferedFnType :: "expr list \<Rightarrow> expr \<Rightarrow> solver \<Rightarrow> expr \<times> solver" where
  "makeInferedFnType as outputType st =
     fold (\<lambda>arg (ret, st0).
             let (sub, st1) = tempSymbol False None st0;
                 (inp, st2) = tempSymbol False (Some (UNIVERSE (SYMBOL sub))) st1
             in (FN_TYPE (SYMBOL inp) ret None, addTypeConstraint arg (SYMBOL inp) st2))
          (rev as) (outputType, st)"

text \<open>
  \<^verbatim>\<open>evaluateTypeConstraint\<close> serves the kinds \<^verbatim>\<open>TYPE\<close> and \<^verbatim>\<open>FN\<close>. Its argument \<open>fnArgs\<close>
  is \<open>None\<close> for a \<^verbatim>\<open>TYPE\<close> constraint (then \<open>ty\<close> is \<^verbatim>\<open>con.type\<close>) and \<open>Some args\<close> for
  an \<^verbatim>\<open>FN\<close> constraint (then \<open>ty\<close> is \<^verbatim>\<open>con.outputType\<close>). A \<^verbatim>\<open>PATTERN\<close> reaches the
  \<^verbatim>\<open>default\<close> branch, which panics. An \<^verbatim>\<open>FN\<close> constraint on a lambda reads \<^verbatim>\<open>con.args[0]\<close>;
  on an empty argument list that is \<^verbatim>\<open>undefined\<close>, which is not an expression, and the
  model stops there (a call has at least one argument).
\<close>

definition evaluateTypeConstraint ::
  "expr \<Rightarrow> expr list option \<Rightarrow> expr \<Rightarrow> solver \<Rightarrow> (bool \<times> solver) option" where
  "evaluateTypeConstraint e fnArgs ty st =
     (case e of
        SYMBOL s \<Rightarrow>
          (case getSymbolEntryT (registry st) s of
             None \<Rightarrow> None
           | Some entry \<Rightarrow>
               (case type entry of
                  Some symbolType \<Rightarrow>
                    (case fnArgs of
                       None \<Rightarrow> Some (True, addEqualConstraint symbolType ty st)
                     | Some as \<Rightarrow> Some (True, addFnTypeEqualConstraint symbolType as ty st))
                | None \<Rightarrow>
                    if isTempSymbol (registry st) s \<or> s \<in> set (unlockedSymbols st) then
                      (let st1 = st\<lparr>affectedSymbols := set_add s (affectedSymbols st)\<rparr>;
                           (t, st2) = (case fnArgs of
                                         None \<Rightarrow> (ty, st1)
                                       | Some as \<Rightarrow> makeInferedFnType as ty st1);
                           st3 = st2\<lparr>registry :=
                                   setSymbolEntryT (registry st2) s (entry\<lparr>type := Some t\<rparr>)\<rparr>
                       in case ownValue entry of
                            Some v \<Rightarrow> Some (True, addTypeConstraint v t st3)
                          | None \<Rightarrow> Some (True, st3))
                    else Some (True, pushDiagnostic (UNTYPED_EXPRESSION e) st)))
      | CALL fn args \<Rightarrow>
          (case fnArgs of
             None \<Rightarrow> Some (True, addFnTypeConstraint fn args ty st)
           | Some as \<Rightarrow> Some (True, addFnTypeConstraint fn (as @ args) ty st))
      | LAMBDA arg body \<Rightarrow>
          (case fnArgs of
             None \<Rightarrow>
               (let (inp, st1) = tempSymbol False None st;
                    (out, st2) = tempSymbol False None st1;
                    (a, st3) = tempSymbol True (Some (SYMBOL inp)) st2;
                    st4 = addTypeTypeConstraint (SYMBOL inp) st3;
                    st5 = addTypeTypeConstraint (SYMBOL out) st4;
                    st6 = addTypeConstraint (replaceOneSymbol body arg (SYMBOL a)) (SYMBOL out) st5
                in Some (True,
                     addEqualConstraint (FN_TYPE (SYMBOL inp) (SYMBOL out) (Some a)) ty st6))
           | Some [] \<Rightarrow> None
           | Some [a0] \<Rightarrow> Some (True, addTypeConstraint (replaceOneSymbol body arg a0) ty st)
           | Some (a0 # as) \<Rightarrow>
               Some (True, addFnTypeConstraint (replaceOneSymbol body arg a0) as ty st))
      | FN_TYPE inputType outputType arg \<Rightarrow>
          (let (inputTypeLevel, st1) = tempSymbol False (Some LEVEL_TYPE) st;
               (outputTypeLevel, st2) = tempSymbol False (Some LEVEL_TYPE) st1;
               st3 = addTypeConstraint inputType (UNIVERSE (SYMBOL inputTypeLevel)) st2;
               (out, st4) =
                 (case arg of
                    None \<Rightarrow> (outputType, st3)
                  | Some x \<Rightarrow> (let (a, s') = tempSymbol True (Some inputType) st3
                               in (replaceOneSymbol outputType x (SYMBOL a), s')));
               st5 = addTypeConstraint out (UNIVERSE (SYMBOL outputTypeLevel)) st4;
               t = UNIVERSE (LEVEL_MAX (SYMBOL inputTypeLevel) (SYMBOL outputTypeLevel))
           in case fnArgs of
                None \<Rightarrow> Some (True, addEqualConstraint ty t st5)
              | Some as \<Rightarrow> Some (True, pushDiagnostic (FN_TYPE_EXPECTED t) st5))
      | PLACEHOLDER \<Rightarrow> Some (True, st)
      | UNIVERSE subscript \<Rightarrow>
          (let t = UNIVERSE (LEVEL_SUCC subscript)
           in case fnArgs of
                None \<Rightarrow> Some (True, addEqualConstraint t ty st)
              | Some as \<Rightarrow> Some (True, pushDiagnostic (FN_TYPE_EXPECTED t) st))
      | LEVEL_TYPE \<Rightarrow>
          (let t = UNIVERSE (LEVEL 0)
           in case fnArgs of
                None \<Rightarrow> Some (True, addEqualConstraint t ty st)
              | Some as \<Rightarrow> Some (True, pushDiagnostic (FN_TYPE_EXPECTED t) st))
      | PATTERN v \<Rightarrow> None
      | _ \<Rightarrow>
          (case fnArgs of
             None \<Rightarrow> Some (True, addEqualConstraint ty LEVEL_TYPE st)
           | Some as \<Rightarrow> Some (True, pushDiagnostic (FN_TYPE_EXPECTED LEVEL_TYPE) st)))"

text \<open>\<^verbatim>\<open>evaluateFnTypeEqualConstraint\<close>; it reads \<^verbatim>\<open>con.args[0]\<close> like the lambda case
  above.\<close>

definition evaluateFnTypeEqualConstraint ::
  "nat \<Rightarrow> expr \<Rightarrow> expr list \<Rightarrow> expr \<Rightarrow> solver \<Rightarrow> (bool \<times> solver) option" where
  "evaluateFnTypeEqualConstraint fuel fnType as outputType st =
     do {
       (fn, ch) \<leftarrow> expand fuel (registry st) fnType;
       (case fn of
          FN_TYPE inp out arg \<Rightarrow>
            (case as of
               [] \<Rightarrow> None
             | a0 # rest \<Rightarrow>
                 (let st1 = addTypeConstraint a0 inp st;
                      out1 = (case arg of None \<Rightarrow> out | Some x \<Rightarrow> replaceOneSymbol out x a0)
                  in if rest = [] then Some (True, addEqualConstraint outputType out1 st1)
                     else Some (True, addFnTypeEqualConstraint out1 rest outputType st1)))
        | _ \<Rightarrow>
            if ch then Some (ch, addFnTypeEqualConstraint fnType as outputType st)
            else Some (ch, st\<lparr>constraints := constraints st @ [CFN_TYPE_EQUAL fnType as outputType]\<rparr>))
     }"

definition evaluateConstraint ::
  "nat \<Rightarrow> helpers \<Rightarrow> Constraint \<Rightarrow> bool \<Rightarrow> solver \<Rightarrow> (bool \<times> solver) option" where
  "evaluateConstraint fuel h con previouslyNoChange st =
     (case con of
        CFN e as t \<Rightarrow> evaluateTypeConstraint e (Some as) t st
      | CTYPE e t \<Rightarrow> evaluateTypeConstraint e None t st
      | CEQUAL a b \<Rightarrow> evaluateEqualConstraint fuel h a b previouslyNoChange st
      | CFN_TYPE_EQUAL f as t \<Rightarrow> evaluateFnTypeEqualConstraint fuel f as t st)"

text \<open>\<^verbatim>\<open>iterate\<close> copies the queue, empties it and evaluates the copy in order; it returns
  whether some evaluation returned \<^verbatim>\<open>true\<close>.\<close>

fun iterateLoop ::
  "nat \<Rightarrow> helpers \<Rightarrow> bool \<Rightarrow> Constraint list \<Rightarrow> bool \<Rightarrow> solver \<Rightarrow> (bool \<times> solver) option" where
  "iterateLoop fuel h previouslyNoChange [] ch st = Some (ch, st)"
| "iterateLoop fuel h previouslyNoChange (con # cons) ch st =
     (case evaluateConstraint fuel h con previouslyNoChange st of
        None \<Rightarrow> None
      | Some (r, st1) \<Rightarrow> iterateLoop fuel h previouslyNoChange cons (if r then True else ch) st1)"

definition iterate :: "nat \<Rightarrow> helpers \<Rightarrow> bool \<Rightarrow> solver \<Rightarrow> (bool \<times> solver) option" where
  "iterate fuel h previouslyNoChange st =
     iterateLoop fuel h previouslyNoChange (constraints st) False (st\<lparr>constraints := []\<rparr>)"

text \<open>
  \<^verbatim>\<open>finalCheck\<close>, in the four steps of the source. The first loop over the temp symbols
  gives the own-value \<open>LEVEL 0\<close> to every entry of type \<^verbatim>\<open>LEVEL_TYPE\<close> without own-value;
  then one \<^verbatim>\<open>UNRESOLVED_CONSTRAINT\<close> per queued constraint; the second loop collects the
  expanded own-values in \<^verbatim>\<open>tempReps\<close> and the non-local symbols without own-value, which
  go into one \<^verbatim>\<open>UNINFERED_VAR\<close> when there are any; last the entries of the affected
  symbols are rewritten.
\<close>

definition defaultLevels :: "TempSymbolRegistry \<Rightarrow> TempSymbolRegistry" where
  "defaultLevels r =
     r\<lparr>tempSymbols :=
         map (\<lambda>entry. if type entry = Some LEVEL_TYPE \<and> ownValue entry = None
                       then entry\<lparr>ownValue := Some (LEVEL 0)\<rparr> else entry)
             (tempSymbols r)\<rparr>"

fun collectTemps ::
  "nat \<Rightarrow> TempSymbolRegistry \<Rightarrow> (symbol \<times> SymbolEntry) list \<Rightarrow> (symbol, expr) jsmap \<Rightarrow> symbol list
     \<Rightarrow> ((symbol, expr) jsmap \<times> symbol list) option" where
  "collectTemps fuel r [] tempReps uninferedVars = Some (tempReps, uninferedVars)"
| "collectTemps fuel r ((s, entry) # rest) tempReps uninferedVars =
     (case ownValue entry of
        Some v \<Rightarrow>
          (case expand fuel r v of
             None \<Rightarrow> None
           | Some (v', c) \<Rightarrow> collectTemps fuel r rest (AList.update s v' tempReps) uninferedVars)
      | None \<Rightarrow>
          if \<not> isLocal entry then collectTemps fuel r rest tempReps (uninferedVars @ [s])
          else collectTemps fuel r rest tempReps uninferedVars)"

definition substituteEntry :: "helpers \<Rightarrow> (symbol, expr) jsmap \<Rightarrow> SymbolEntry \<Rightarrow> SymbolEntry" where
  "substituteEntry h tempReps entry =
     entry\<lparr>type := map_option (\<lambda>t. replaceSymbols t tempReps) (type entry),
           ownValue := map_option (\<lambda>v. replaceSymbols v tempReps) (ownValue entry),
           downValue := map_option
             (map (\<lambda>v. let reps = complement h tempReps (patterns v)
                        in \<lparr>lhs = replaceSymbols (lhs v) reps, rhs = replaceSymbols (rhs v) reps,
                            patterns = patterns v\<rparr>))
             (downValue entry)\<rparr>"

fun substituteAffected ::
  "helpers \<Rightarrow> (symbol, expr) jsmap \<Rightarrow> symbol list \<Rightarrow> TempSymbolRegistry \<Rightarrow> TempSymbolRegistry option" where
  "substituteAffected h tempReps [] r = Some r"
| "substituteAffected h tempReps (s # ss) r =
     (case getSymbolEntryT r s of
        None \<Rightarrow> None
      | Some entry \<Rightarrow>
          substituteAffected h tempReps ss (setSymbolEntryT r s (substituteEntry h tempReps entry)))"

definition finalCheck :: "nat \<Rightarrow> helpers \<Rightarrow> solver \<Rightarrow> solver option" where
  "finalCheck fuel h st =
     (let r1 = defaultLevels (registry st);
          d1 = diagnostics st @ map UNRESOLVED_CONSTRAINT (constraints st)
      in case collectTemps fuel r1 (tempSymbolList r1) [] [] of
           None \<Rightarrow> None
         | Some (tempReps, uninferedVars) \<Rightarrow>
             (let d2 = (if uninferedVars \<noteq> [] then d1 @ [UNINFERED_VAR uninferedVars] else d1)
              in case substituteAffected h tempReps (affectedSymbols st) r1 of
                   None \<Rightarrow> None
                 | Some r2 \<Rightarrow> Some (st\<lparr>registry := r2, diagnostics := d2\<rparr>)))"

text \<open>
  The loop of \<^verbatim>\<open>run\<close>. The counter \<^verbatim>\<open>iterations\<close> is handed to \<^verbatim>\<open>logDump\<close> by value, and
  the only increment in the source is \<^verbatim>\<open>iterations++\<close> on \<^verbatim>\<open>logDump\<close>'s own parameter, so
  in \<^verbatim>\<open>run\<close> the counter keeps the value it has on entry; logging does not touch the
  solver. The loop runs on fuel, one unit per turn. Besides the solver the model returns
  the list of the calls of \<^verbatim>\<open>iterate\<close> made, each as the pair of its argument
  \<^verbatim>\<open>previouslyNoChange\<close> and its result.
\<close>

fun runLoop ::
  "nat \<Rightarrow> nat \<Rightarrow> helpers \<Rightarrow> int \<Rightarrow> int \<Rightarrow> solver \<Rightarrow> ((bool \<times> bool) list \<times> solver) option" where
  "runLoop 0 fuel h iterations maxIterations st = None"
| "runLoop (Suc n) fuel h iterations maxIterations st =
     (if iterations > maxIterations then Some ([], st)
      else
        (case iterate fuel h False st of
           None \<Rightarrow> None
         | Some (ch1, st1) \<Rightarrow>
             if ch1 then
               map_option (\<lambda>(tr, s'). ((False, ch1) # tr, s'))
                 (runLoop n fuel h iterations maxIterations st1)
             else
               (case iterate fuel h True st1 of
                  None \<Rightarrow> None
                | Some (ch2, st2) \<Rightarrow>
                    if ch2 then
                      map_option (\<lambda>(tr, s'). ((False, ch1) # (True, ch2) # tr, s'))
                        (runLoop n fuel h iterations maxIterations st2)
                    else Some ([(False, ch1), (True, ch2)], st2))))"

text \<open>\<^verbatim>\<open>run\<close> clears the diagnostics, loops from \<^verbatim>\<open>iterations = 0\<close>, runs the final check
  and returns a copy of the diagnostics; the model returns the solver too, and the calls
  of \<^verbatim>\<open>iterate\<close>.\<close>

definition run ::
  "nat \<Rightarrow> helpers \<Rightarrow> int \<Rightarrow> solver \<Rightarrow> (Diagnostic list \<times> (bool \<times> bool) list \<times> solver) option" where
  "run fuel h maxIterations st =
     (case runLoop fuel fuel h 0 maxIterations (st\<lparr>diagnostics := []\<rparr>) of
        None \<Rightarrow> None
      | Some (tr, st1) \<Rightarrow>
          (case finalCheck fuel h st1 of
             None \<Rightarrow> None
           | Some st2 \<Rightarrow> Some (diagnostics st2, tr, st2)))"

subsection \<open>The two imported helpers\<close>

text \<open>
  Modelled from the spec: \<^verbatim>\<open>checkOwnValueCycle\<close> is imported by the solver from
  \<^verbatim>\<open>expression.ts\<close> and is absent from the sources. The spec's occurs check: assigning
  \<open>v\<close> to \<open>s\<close> requires \<open>s\<close> not to appear transitively inside \<open>v\<close> via own-values, found
  by traversing \<open>v\<close> with a visited set of symbols. \<open>reachableSymbols\<close> closes the symbols
  of \<open>v\<close> under "occurs in the own-value of", in as many rounds as the registry has
  symbols; the check answers \<open>True\<close> when \<open>s\<close> is not among them.
\<close>

fun symbolsOf :: "expr \<Rightarrow> symbol list" where
  "symbolsOf (SYMBOL s) = [s]"
| "symbolsOf (LAMBDA a b) = symbolsOf b"
| "symbolsOf (CALL f as) = symbolsOf f @ concat (map symbolsOf as)"
| "symbolsOf (FN_TYPE i ou a) = symbolsOf i @ symbolsOf ou"
| "symbolsOf (UNIVERSE e) = symbolsOf e"
| "symbolsOf (LEVEL_SUCC e) = symbolsOf e"
| "symbolsOf (LEVEL_MAX a b) = symbolsOf a @ symbolsOf b"
| "symbolsOf (PATTERN v) = []"
| "symbolsOf PLACEHOLDER = []"
| "symbolsOf LEVEL_TYPE = []"
| "symbolsOf (LEVEL n) = []"

definition ownValueSymbols :: "TempSymbolRegistry \<Rightarrow> symbol \<Rightarrow> symbol list" where
  "ownValueSymbols r s =
     (case getSymbolEntryT r s of
        None \<Rightarrow> []
      | Some entry \<Rightarrow> (case ownValue entry of None \<Rightarrow> [] | Some v \<Rightarrow> symbolsOf v))"

fun reachableSymbols :: "nat \<Rightarrow> TempSymbolRegistry \<Rightarrow> symbol list \<Rightarrow> symbol list" where
  "reachableSymbols 0 r ss = ss"
| "reachableSymbols (Suc k) r ss =
     reachableSymbols k r (remdups (ss @ concat (map (ownValueSymbols r) ss)))"

definition specCheckOwnValueCycle :: "TempSymbolRegistry \<Rightarrow> symbol \<Rightarrow> expr \<Rightarrow> bool" where
  "specCheckOwnValueCycle r s v =
     (s \<notin> set (reachableSymbols (getSymbolCount (parentRegistry r) + length (tempSymbols r)) r
                  (symbolsOf v)))"

text \<open>
  Modelled from the spec: \<^verbatim>\<open>complement\<close> is imported by the solver from \<^verbatim>\<open>util.ts\<close> and is
  absent from the sources. The spec only says that the final check substitutes the temp
  own-values into the rewrite rules of an affected entry; the call
  \<^verbatim>\<open>complement(tempReps, v.patterns)\<close> is read as the map without the keys that are
  pattern symbols of the rule.
\<close>

definition specComplement :: "(symbol, expr) jsmap \<Rightarrow> symbol list \<Rightarrow> (symbol, expr) jsmap" where
  "specComplement m ps = filter (\<lambda>(k, v). k \<notin> set ps) m"

definition specHelpers :: helpers where
  "specHelpers = \<lparr>checkOwnValueCycle = specCheckOwnValueCycle, complement = specComplement\<rparr>"

section \<open>Properties of a run\<close>


section \<open>Example inputs\<close>

text \<open>A registry with the one local symbol \<open>x\<close>, handle \<open>0\<close>, and no temp symbols.\<close>

definition registryX :: TempSymbolRegistry where
  "registryX = newTempRegistry
     \<lparr>entriesById = [newEntry None ''x'' True], entriesByName = [(''x'', 0)], removedSymbols = []\<rparr>"

text \<open>A solver over an empty registry with the one temp symbol \<open>0\<close>, of type
  \<^verbatim>\<open>LEVEL_TYPE\<close>, without own-value.\<close>

definition solverTemp :: solver where
  "solverTemp = (newSolver newRegistry)
     \<lparr>registry := \<lparr>parentRegistry = newRegistry,
                   tempSymbols = [(newEntry None [] False)\<lparr>type := Some LEVEL_TYPE\<rparr>]\<rparr>\<rparr>"

text \<open>A solver over a registry with the one permanent symbol \<open>a\<close>, handle \<open>0\<close>, without
  type or own-value, which the elaborator has unlocked.\<close>

definition solverUnlocked :: solver where
  "solverUnlocked = unlockSymbol 0 (newSolver
     \<lparr>entriesById = [newEntry None ''a'' False], entriesByName = [(''a'', 0)], removedSymbols = []\<rparr>)"


text \<open>A solver with the one constraint \<open>builtin.Level : type(0l)\<close>, and one with the one
  constraint that \<open>succ(0l)\<close>, applied to \<open>0l\<close>, gives \<open>builtin.Level\<close>.\<close>

definition solverLevelType :: solver where
  "solverLevelType = addTypeConstraint LEVEL_TYPE (UNIVERSE (LEVEL 0)) (newSolver newRegistry)"

definition solverLoop :: solver where
  "solverLoop =
     addFnTypeEqualConstraint (LEVEL_SUCC (LEVEL 0)) [LEVEL 0] LEVEL_TYPE (newSolver newRegistry)"


section \<open>Properties of the final check\<close>



section \<open>Sequences of registry operations\<close>












section \<open>The elaborator: analyse\<close>
































section \<open>Properties of an elaboration\<close>








section \<open>Theorems\<close>

subsection \<open>Substitution and binders\<close>

text \<open>
  C4. The claim says that a binder's own symbol is masked while the walk is inside the
  binder's body. For a dependent \<^verbatim>\<open>FN_TYPE\<close> it is; for a \<^verbatim>\<open>LAMBDA\<close> the source saves the
  old value and restores it afterwards but never deletes the key in between, so the bound
  occurrences are replaced: replacing \<open>x\<close> by the level literal \<open>0\<close> in \<open>\<lambda>x. x\<close> gives
  \<open>\<lambda>x. 0\<close>, and the same with \<^verbatim>\<open>replaceSymbols\<close>.
\<close>

theorem C4_lambda_binder_not_masked:
  "replaceOneSymbol (LAMBDA 0 (SYMBOL 0)) 0 (LEVEL 0) = LAMBDA 0 (LEVEL 0)
   \<and> replaceSymbols (LAMBDA 0 (SYMBOL 0)) [(0, LEVEL 0)] = LAMBDA 0 (LEVEL 0)
   \<and> replaceOneSymbol (FN_TYPE (SYMBOL 0) (SYMBOL 0) (Some 0)) 0 (LEVEL 0)
       = FN_TYPE (LEVEL 0) (SYMBOL 0) (Some 0)"
  by (simp add: replaceOneSymbol_def replaceSymbols_def AList.delete_eq)

subsection \<open>Beta reduction in the normaliser\<close>

text \<open>
  C3. The claim says that a call whose head expands to a lambda reduces to the expanded
  body with the argument in the place of the bound symbol. The source passes the whole
  lambda \<^verbatim>\<open>fn\<close>, not \<^verbatim>\<open>fn.body\<close>, to \<^verbatim>\<open>replaceOneSymbol\<close> and pushes the result without
  expanding it further, so the result is the lambda with the argument substituted in its
  body. For \<open>(\<lambda>x. succ(0l) \<rightarrow> x)(builtin.Level)\<close> the source returns
  \<open>\<lambda>x. 1l \<rightarrow> builtin.Level\<close>, where the claim has \<open>1l \<rightarrow> builtin.Level\<close>, the expansion of
  the body with the argument substituted.
\<close>

theorem C3_call_of_lambda_stays_lambda:
  "expand 20 registryX (CALL (LAMBDA 0 (FN_TYPE (LEVEL_SUCC (LEVEL 0)) (SYMBOL 0) None)) [LEVEL_TYPE])
     = Some (LAMBDA 0 (FN_TYPE (LEVEL 1) LEVEL_TYPE None), True)
   \<and> expand 20 registryX (replaceOneSymbol (FN_TYPE (LEVEL_SUCC (LEVEL 0)) (SYMBOL 0) None) 0 LEVEL_TYPE)
     = Some (FN_TYPE (LEVEL 1) LEVEL_TYPE None, True)"
  by (simp add: expand_def registryX_def newTempRegistry_def eval_nat_numeral getSymbolEntryT_def
      getSymbolCount_def getSymbolEntry_def tryGetSymbolEntry_def newEntry_def doActions_def
      push_def replaceOneSymbol_def)

subsection \<open>The pattern matcher\<close>

text \<open>
  C5. The claim says that any mismatch of tags makes the matcher fail, a \<^verbatim>\<open>LEVEL_SUCC\<close>
  pattern against a subject that is neither a \<^verbatim>\<open>LEVEL_SUCC\<close> nor a positive level
  included, and that a returned map turns the pattern into the subject. The
  \<^verbatim>\<open>LEVEL_SUCC\<close> case of the source has no \<^verbatim>\<open>else\<close> for a subject of another tag: it
  breaks out of the switch and the loop goes on. Matching \<open>succ(?v)\<close> against
  \<open>builtin.Level\<close> returns the empty map, and the empty map leaves the pattern as it is.
\<close>

theorem C5_level_succ_pattern_accepts_other_tag:
  "matchPattern (Suc n) LEVEL_TYPE (LEVEL_SUCC (PATTERN (Some 0))) = Some (Some [])
   \<and> replaceSymbols (LEVEL_SUCC (PATTERN (Some 0))) [] \<noteq> LEVEL_TYPE"
  by (simp add: matchPattern_def replaceSymbols_def)

subsection \<open>Assignment of own-values\<close>

lemma getSymbolEntryT_set_same:
  "getSymbolEntryT r s = Some e0 \<Longrightarrow> getSymbolEntryT (setSymbolEntryT r s e) s = Some e"
  by (auto simp: getSymbolEntryT_def setSymbolEntryT_def getSymbolCount_def getSymbolEntry_def
      tryGetSymbolEntry_def Let_def split: if_splits)

text \<open>
  C1, as the source has it. For a symbol \<open>s\<close> with an entry, \<^verbatim>\<open>trySetOwnValue(s, r)\<close>
  succeeds exactly when \<open>s\<close> has no own-value, \<open>s\<close> is a temp symbol and the cycle check
  allows the assignment. On success the entry of \<open>s\<close> has the own-value \<open>r\<close>, the
  constraint \<open>r : T\<close> is queued when the entry has a type \<open>T\<close> and nothing else is, and
  no diagnostic is recorded. An equation whose expanded and oriented sides are \<open>s\<close> and
  \<open>r\<close>, with \<open>r\<close> not the symbol \<open>s\<close> itself, is solved by that assignment.
\<close>

theorem C1_own_value_assignment:
  assumes "getSymbolEntryT (registry st) s = Some entry"
  shows "((\<exists>st'. trySetOwnValue h s r st = Some (True, st'))
            \<longleftrightarrow> (ownValue entry = None \<and> isTempSymbol (registry st) s
                 \<and> checkOwnValueCycle h (registry st) s r))
       \<and> (\<forall>st'. trySetOwnValue h s r st = Some (True, st') \<longrightarrow>
             getSymbolEntryT (registry st') s = Some (entry\<lparr>ownValue := Some r\<rparr>)
           \<and> constraints st' =
               constraints st @ (case type entry of Some T \<Rightarrow> [CTYPE r T] | None \<Rightarrow> [])
           \<and> diagnostics st' = diagnostics st)
       \<and> (\<forall>st' fuel c1 c2 x1 x2 ch1 ch2 pnc.
             expand fuel (registry st) c1 = Some (x1, ch1)
           \<and> expand fuel (registry st) c2 = Some (x2, ch2)
           \<and> orient (registry st) x1 x2 = (SYMBOL s, r) \<and> r \<noteq> SYMBOL s
           \<and> trySetOwnValue h s r st = Some (True, st')
           \<longrightarrow> evaluateEqualConstraint fuel h c1 c2 pnc st = Some (True, st'))"
proof (intro conjI allI impI)
  show "(\<exists>st'. trySetOwnValue h s r st = Some (True, st'))
            \<longleftrightarrow> (ownValue entry = None \<and> isTempSymbol (registry st) s
                 \<and> checkOwnValueCycle h (registry st) s r)"
    using assms by (auto simp: trySetOwnValue_def Let_def)
next
  fix st' assume a: "trySetOwnValue h s r st = Some (True, st')"
  from a assms have g: "ownValue entry = None" "isTempSymbol (registry st) s"
     "checkOwnValueCycle h (registry st) s r"
    by (auto simp: trySetOwnValue_def Let_def split: if_splits)
  from a assms g show "getSymbolEntryT (registry st') s = Some (entry\<lparr>ownValue := Some r\<rparr>)"
    by (auto simp: trySetOwnValue_def Let_def addTypeConstraint_def isTempSymbol_def
        setSymbolEntryT_def getSymbolEntryT_def getSymbolCount_def
        split: option.splits if_splits)
  from a assms g show "constraints st' =
      constraints st @ (case type entry of Some T \<Rightarrow> [CTYPE r T] | None \<Rightarrow> [])"
    by (auto simp: trySetOwnValue_def Let_def addTypeConstraint_def isTempSymbol_def
        setSymbolEntryT_def getSymbolCount_def split: option.splits if_splits)
  from a assms g show "diagnostics st' = diagnostics st"
    by (auto simp: trySetOwnValue_def Let_def addTypeConstraint_def isTempSymbol_def
        setSymbolEntryT_def getSymbolCount_def split: option.splits if_splits)
next
  fix st' fuel c1 c2 x1 x2 ch1 ch2 pnc
  assume "expand fuel (registry st) c1 = Some (x1, ch1)
           \<and> expand fuel (registry st) c2 = Some (x2, ch2)
           \<and> orient (registry st) x1 x2 = (SYMBOL s, r) \<and> r \<noteq> SYMBOL s
           \<and> trySetOwnValue h s r st = Some (True, st')"
  then show "evaluateEqualConstraint fuel h c1 c2 pnc st = Some (True, st')"
    by (simp add: evaluateEqualConstraint_def)
qed

text \<open>
  C1 as stated fails for an unlocked permanent symbol. The permanent symbol \<open>a\<close> has no
  own-value, is unlocked, and the cycle check allows the level literal \<open>0\<close> for it; yet
  \<^verbatim>\<open>trySetOwnValue\<close> returns \<^verbatim>\<open>false\<close> and leaves the solver as it was, and the equation
  \<open>0l \<equiv> a\<close> is put back on the queue.
\<close>

theorem C1_unlocked_symbol_not_assigned:
  "getSymbolEntryT (registry solverUnlocked) 0 = Some (newEntry None ''a'' False)
   \<and> ownValue (newEntry None ''a'' False) = None
   \<and> \<not> isTempSymbol (registry solverUnlocked) 0
   \<and> 0 \<in> set (unlockedSymbols solverUnlocked)
   \<and> checkOwnValueCycle specHelpers (registry solverUnlocked) 0 (LEVEL 0)
   \<and> trySetOwnValue specHelpers 0 (LEVEL 0) solverUnlocked = Some (False, solverUnlocked)
   \<and> evaluateEqualConstraint 20 specHelpers (LEVEL 0) (SYMBOL 0) False solverUnlocked
       = Some (False, solverUnlocked\<lparr>constraints := [CEQUAL (LEVEL 0) (SYMBOL 0)]\<rparr>)"
  by code_simp

text \<open>An instance of \<open>C1_own_value_assignment\<close>: the temp symbol \<open>0\<close> of type
  \<^verbatim>\<open>LEVEL_TYPE\<close> receives the own-value \<open>3l\<close>, and \<open>3l : builtin.Level\<close> is queued.\<close>

theorem C1_own_value_assignment_witness:
  "getSymbolEntryT (registry solverTemp) 0 = Some ((newEntry None [] False)\<lparr>type := Some LEVEL_TYPE\<rparr>)
   \<and> (\<exists>st'. trySetOwnValue specHelpers 0 (LEVEL 3) solverTemp = Some (True, st')
          \<and> getSymbolEntryT (registry st') 0
              = Some ((newEntry None [] False)\<lparr>type := Some LEVEL_TYPE, ownValue := Some (LEVEL 3)\<rparr>)
          \<and> constraints st' = [CTYPE (LEVEL 3) LEVEL_TYPE]
          \<and> evaluateEqualConstraint 20 specHelpers (LEVEL 3) (SYMBOL 0) False solverTemp
              = Some (True, st'))"
proof -
  let ?e = "(newEntry None [] False)\<lparr>type := Some LEVEL_TYPE\<rparr>"
  have l: "getSymbolEntryT (registry solverTemp) 0 = Some ?e"
    by code_simp
  have g: "ownValue ?e = None \<and> isTempSymbol (registry solverTemp) 0
      \<and> checkOwnValueCycle specHelpers (registry solverTemp) 0 (LEVEL 3)"
    by code_simp
  have x1: "expand 20 (registry solverTemp) (LEVEL 3) = Some (LEVEL 3, False)"
    by code_simp
  have x2: "expand 20 (registry solverTemp) (SYMBOL 0) = Some (SYMBOL 0, False)"
    by code_simp
  have o: "orient (registry solverTemp) (LEVEL 3) (SYMBOL 0) = (SYMBOL 0, LEVEL 3)"
    by code_simp
  have c: "constraints solverTemp = []" "type ?e = Some LEVEL_TYPE"
    by (simp_all add: solverTemp_def newSolver_def)
  note T = C1_own_value_assignment[OF l, of specHelpers "LEVEL 3"]
  from T g obtain st' where s: "trySetOwnValue specHelpers 0 (LEVEL 3) solverTemp = Some (True, st')"
    by blast
  from T s have "getSymbolEntryT (registry st') 0 = Some (?e\<lparr>ownValue := Some (LEVEL 3)\<rparr>)"
    and "constraints st' = constraints solverTemp @ (case type ?e of Some T \<Rightarrow> [CTYPE (LEVEL 3) T] | None \<Rightarrow> [])"
    by blast+
  moreover from T s x1 x2 o
  have "evaluateEqualConstraint 20 specHelpers (LEVEL 3) (SYMBOL 0) False solverTemp = Some (True, st')"
    by blast
  ultimately show ?thesis using l s c by auto
qed

subsection \<open>The stuck pass\<close>





subsection \<open>The iteration bound\<close>

lemma runLoop_bound_inert: "runLoop n fuel h 0 (int m) st = runLoop n fuel h 0 0 st"
  by (induction n arbitrary: st) (auto split: option.splits)

lemma expand_succ_zero:
  "expand (fuel + 4) (registry solverLoop) (LEVEL_SUCC (LEVEL 0)) = Some (LEVEL 1, True)"
  by (simp add: expand_def doActions_def push_def eval_nat_numeral)

lemma iterate_solverLoop: "iterate (fuel + 4) h False solverLoop = Some (True, solverLoop)"
  using expand_succ_zero[of fuel]
  by (simp add: iterate_def evaluateConstraint_def evaluateFnTypeEqualConstraint_def
        addFnTypeEqualConstraint_def solverLoop_def newSolver_def)

lemma iterate_solverLoop_any:
  "iterate fuel h False solverLoop = None \<or> iterate fuel h False solverLoop = Some (True, solverLoop)"
proof (cases "fuel < 4")
  case True
  then consider "fuel = 0" | "fuel = 1" | "fuel = 2" | "fuel = 3"
    by linarith
  then have "expand fuel (registry solverLoop) (LEVEL_SUCC (LEVEL 0)) = None"
    by cases (simp_all add: expand_def doActions_def push_def eval_nat_numeral)
  then show ?thesis
    by (simp add: iterate_def evaluateConstraint_def evaluateFnTypeEqualConstraint_def
        addFnTypeEqualConstraint_def solverLoop_def newSolver_def)
next
  case False
  then have "fuel = (fuel - 4) + 4" by simp
  then show ?thesis using iterate_solverLoop[of "fuel - 4" h] by simp
qed

lemma runLoop_solverLoop: "runLoop n fuel h 0 (int m) solverLoop = None"
proof (induction n)
  case 0
  show ?case by simp
next
  case (Suc n)
  from iterate_solverLoop_any[of fuel h] Suc show ?case by auto
qed

text \<open>
  C7. The claim says that the loop of \<^verbatim>\<open>run\<close> makes at most \<^verbatim>\<open>maxIterations\<close> passes and
  reports when the bound is exceeded. In the source the counter \<^verbatim>\<open>iterations\<close> of \<^verbatim>\<open>run\<close>
  is never incremented (\<^verbatim>\<open>logDump\<close> increments its own parameter), so the test
  \<^verbatim>\<open>iterations > maxIterations\<close> compares \<open>0\<close> with the bound on every turn and no
  non-negative bound has any effect. With the bound \<open>0\<close> the run on
  \<open>builtin.Level : type(0l)\<close> makes five passes and records nothing. On the solver
  \<open>solverLoop\<close> every ordinary pass returns \<^verbatim>\<open>true\<close> and leaves the solver as it was, and
  the run returns for no bound and no amount of fuel.
\<close>

theorem C7_iteration_bound_not_enforced:
  "runLoop n fuel h 0 (int m) st = runLoop n fuel h 0 0 st
   \<and> map_option (\<lambda>(ds, tr, st'). (ds, length tr)) (run 20 specHelpers 0 solverLevelType)
       = Some ([], 5)
   \<and> iterate (fuel + 4) h False solverLoop = Some (True, solverLoop)
   \<and> run fuel h (int m) solverLoop = None"
proof (intro conjI)
  show "runLoop n fuel h 0 (int m) st = runLoop n fuel h 0 0 st"
    by (rule runLoop_bound_inert)
  show "map_option (\<lambda>(ds, tr, st'). (ds, length tr)) (run 20 specHelpers 0 solverLevelType)
       = Some ([], 5)"
    by code_simp
  show "iterate (fuel + 4) h False solverLoop = Some (True, solverLoop)"
    by (rule iterate_solverLoop)
  have "solverLoop\<lparr>diagnostics := []\<rparr> = solverLoop"
    by (simp add: solverLoop_def addFnTypeEqualConstraint_def newSolver_def)
  then show "run fuel h (int m) solverLoop = None"
    by (simp add: run_def runLoop_solverLoop)
qed

subsection \<open>The final check\<close>











subsection \<open>Lookup of allocated handles\<close>




























subsection \<open>Removal of the new symbols\<close>































































end
